theory Spec2Isabelle
  imports Complex_Main "HOL-Library.Signed_Division"
begin

section \<open>Go values used by metrics.go\<close>

text \<open>
  The package keeps time series in ring buffers (\<open>Metric\<close>) and the buffers in a
  registry (\<open>Metrics\<close>). The model is sequential: the \<open>sync.Mutex\<close> fields and the
  \<open>Lock\<close>/\<open>Unlock\<close> calls are left out, every method runs from its first statement to its
  return without interference.

  A run-time panic is a value of type \<open>panic\<close>; a function that can panic returns
  \<open>panic + 'a\<close> with \<open>Inl\<close> for the panic. \<open>AllocationFailure\<close> stands for a \<open>make\<close> that
  returns no slice because the length asked for is more than it can allocate: the run
  time panics with "makeslice: len out of range" when the size in bytes exceeds the
  allocation limit of the platform, and stops the program with "out of memory" when the
  memory is not there. A Go \<open>error\<close> result is a
  \<open>string option\<close>: \<open>None\<close> is \<open>nil\<close>, \<open>Some msg\<close> is \<open>errors.New(msg)\<close>.
\<close>

datatype panic =
    IndexOutOfRange
  | DivideByZero
  | MakesliceLenOutOfRange
  | AllocationFailure
  | AssignToNilMap

text \<open>
  Go's \<open>int\<close> is modelled by \<open>int\<close>: indices and lengths of a slice stay far below
  \<open>2^63\<close>, so \<open>head + 1\<close> and \<open>i + head\<close> never wrap. The operator \<open>%\<close> truncates
  towards zero (\<open>smod\<close>) and panics on a zero divisor.
\<close>

definition go_rem :: "int \<Rightarrow> int \<Rightarrow> panic + int" where
  "go_rem a b = (if b = 0 then Inl DivideByZero else Inr (a smod b))"

text \<open>Reading \<open>xs[i]\<close> and writing \<open>xs[i] = v\<close> on a slice, with the bounds check.\<close>

definition index :: "'a list \<Rightarrow> int \<Rightarrow> panic + 'a" where
  "index xs i = (if 0 \<le> i \<and> i < int (length xs) then Inr (xs ! nat i) else Inl IndexOutOfRange)"

definition set_index :: "'a list \<Rightarrow> int \<Rightarrow> 'a \<Rightarrow> panic + 'a list" where
  "set_index xs i v =
     (if 0 \<le> i \<and> i < int (length xs) then Inr (xs[nat i := v]) else Inl IndexOutOfRange)"

text \<open>
  A \<open>time.Time\<close> is modelled by the instant it denotes, in nanoseconds relative to the Unix
  epoch (location and monotonic reading play no role here). \<open>UnixNano\<close> returns that
  number as an \<open>int64\<close>, so it wraps for instants outside the years 1678 to 2262. The zero
  \<open>Time\<close> is January 1 of year 1, 00:00 UTC.
\<close>

type_synonym Time = int

definition zero_Time :: Time where
  "zero_Time = - 62135596800 * 1000000000"

definition wrap64 :: "int \<Rightarrow> int" where
  "wrap64 x = (x + 2 ^ 63) mod 2 ^ 64 - 2 ^ 63"

definition UnixNano :: "Time \<Rightarrow> int" where
  "UnixNano t = wrap64 t"

text \<open>
  A \<open>float64\<close> sample value is only stored and copied, never computed with; it is
  modelled by a \<open>real\<close>.
\<close>

record Count =
  N :: real
  T :: Time

definition zero_Count :: Count where
  "zero_Count = \<lparr>N = 0, T = zero_Time\<rparr>"

text \<open>
  Modelled from the spec: the type \<open>row\<close> is used by \<open>fetchDatapoints\<close> but not declared
  in metrics.go. The spec describes an exported row as a (value, timestamp in
  milliseconds) pair; the companion program declares \<open>Row\<close> as \<open>[]interface{}\<close>. So a
  \<open>row\<close> is a slice of values: the composite literal \<open>row{a, b}\<close> has two elements, and
  the zero value that \<open>make([]row, n)\<close> fills in is the nil slice, of length 0.
\<close>

datatype iface = Float64 real | Int64 int

type_synonym row = "iface list"

definition zero_row :: row where
  "zero_row = []"

section \<open>Metric: the ring buffer\<close>

record Metric =
  list :: "Count list"
  head :: int

text \<open>
  \<open>make([]Count, size, size)\<close>, with \<open>sz\<close> for the argument \<open>size\<close>. It panics for a
  negative length, and it returns no slice for a length above what it can allocate. That
  bound depends on the platform and on the memory left, not on the source, so it is a
  parameter: \<open>maxlen\<close> is the largest length for which this \<open>make\<close> returns a slice. A
  length of 0 needs no memory and is always served.
\<close>

definition make_Counts :: "nat \<Rightarrow> int \<Rightarrow> panic + Count list" where
  "make_Counts maxlen sz = (if sz < 0 then Inl MakesliceLenOutOfRange
                         else if int maxlen < sz then Inl AllocationFailure
                         else Inr (replicate (nat sz) zero_Count))"

text \<open>
  The composite literal \<open>&Metric{list: make([]Count, size, size)}\<close> of \<open>Create\<close>;
  \<open>head\<close> gets its zero value.
\<close>

definition new_Metric :: "nat \<Rightarrow> int \<Rightarrow> panic + Metric" where
  "new_Metric maxlen sz = (case make_Counts maxlen sz of
       Inl p \<Rightarrow> Inl p
     | Inr l \<Rightarrow> Inr \<lparr>list = l, head = 0\<rparr>)"

text \<open>
  \<open>AddCount\<close>: the slot write \<open>g.list[g.head] = c\<close> comes first, then the head update
  \<open>g.head = (g.head + 1) % len(g.list)\<close>.
\<close>

definition AddCount :: "Count \<Rightarrow> Metric \<Rightarrow> panic + Metric" where
  "AddCount c g = (case set_index (list g) (head g) c of
       Inl p \<Rightarrow> Inl p
     | Inr l \<Rightarrow> (case go_rem (head g + 1) (int (length l)) of
           Inl p \<Rightarrow> Inl p
         | Inr h \<Rightarrow> Inr (g\<lparr>list := l, head := h\<rparr>)))"

text \<open>\<open>Add\<close> reads the clock; the reading \<open>now\<close> of \<open>time.Now()\<close> is an argument.\<close>

definition Add :: "real \<Rightarrow> Time \<Rightarrow> Metric \<Rightarrow> panic + Metric" where
  "Add n now g = (case set_index (list g) (head g) \<lparr>N = n, T = now\<rparr> of
       Inl p \<Rightarrow> Inl p
     | Inr l \<Rightarrow> (case go_rem (head g + 1) (int (length l)) of
           Inl p \<Rightarrow> Inl p
         | Inr h \<Rightarrow> Inr (g\<lparr>list := l, head := h\<rparr>)))"

definition AddWithTime :: "real \<Rightarrow> Time \<Rightarrow> Metric \<Rightarrow> panic + Metric" where
  "AddWithTime n t g = AddCount \<lparr>N = n, T = t\<rparr> g"

text \<open>
  A sequence of \<open>Add\<close> calls, one after the other; each element is the value added and
  the clock reading of that call. The first panic ends the run.
\<close>

fun Adds :: "(real \<times> Time) list \<Rightarrow> Metric \<Rightarrow> panic + Metric" where
  "Adds [] g = Inr g"
| "Adds ((n, now) # xs) g = (case Add n now g of Inl p \<Rightarrow> Inl p | Inr g' \<Rightarrow> Adds xs g')"

text \<open>The row \<open>row{count.N, count.T.UnixNano() / 1000000}\<close>; \<open>/\<close> truncates towards zero.\<close>

definition mk_row :: "Count \<Rightarrow> row" where
  "mk_row count = [Float64 (N count), Int64 (UnixNano (T count) sdiv 1000000)]"

text \<open>
  The loop of \<open>fetchDatapoints\<close>,
  \<open>for i := 0; i < length; i++ { count := g.list[(i+head)%length]; rows = append(rows, ...) }\<close>,
  started at \<open>i\<close> with the rows collected so far.
\<close>

function fetch_loop :: "Metric \<Rightarrow> int \<Rightarrow> int \<Rightarrow> int \<Rightarrow> row list \<Rightarrow> panic + row list" where
  "fetch_loop g len hd0 i rows =
     (if i < len then
        (case go_rem (i + hd0) len of
           Inl p \<Rightarrow> Inl p
         | Inr j \<Rightarrow> (case index (list g) j of
               Inl p \<Rightarrow> Inl p
             | Inr count \<Rightarrow> fetch_loop g len hd0 (i + 1) (rows @ [mk_row count])))
      else Inr rows)"
  by pat_completeness auto
termination
  by (relation "measure (\<lambda>(g, len, hd0, i, rows). nat (len - i))") auto

text \<open>
  \<open>fetchDatapoints\<close>: \<open>rows := make([]row, length)\<close> already has \<open>length\<close> elements, all
  zero rows, and the loop appends to it.
\<close>

definition fetchDatapoints :: "Metric \<Rightarrow> panic + row list" where
  "fetchDatapoints g =
     (let len = int (length (list g));
          hd0 = head g;
          rows = replicate (nat len) zero_row
      in fetch_loop g len hd0 0 rows)"

section \<open>Metrics: the registry\<close>

text \<open>
  The registry maps a target name to a \<open>*Metric\<close>. A pointer is nil (\<open>NilPtr\<close>) or the address of
  a \<open>Metric\<close> in the store; the store is the list of the buffers allocated so far, an
  address its index there. The map field itself can be the nil map (\<open>None\<close>): reading it
  finds nothing, assigning to it panics.
\<close>

datatype ptr = NilPtr | Ref nat

type_synonym store = "Metric list"

record Metrics =
  metric :: "(string \<rightharpoonup> ptr) option"

text \<open>\<open>v, ok := m[k]\<close> and \<open>m[k] = v\<close> on a Go map.\<close>

definition map_lookup :: "(string \<rightharpoonup> ptr) option \<Rightarrow> string \<Rightarrow> ptr \<times> bool" where
  "map_lookup mp k = (case mp of
       None \<Rightarrow> (NilPtr, False)
     | Some f \<Rightarrow> (case f k of None \<Rightarrow> (NilPtr, False) | Some v \<Rightarrow> (v, True)))"

definition map_assign :: "(string \<rightharpoonup> ptr) option \<Rightarrow> string \<Rightarrow> ptr \<Rightarrow> panic + (string \<rightharpoonup> ptr) option" where
  "map_assign mp k v = (case mp of
       None \<Rightarrow> Inl AssignToNilMap
     | Some f \<Rightarrow> Inr (Some (f(k \<mapsto> v))))"

definition Get :: "string \<Rightarrow> Metrics \<Rightarrow> ptr \<times> string option" where
  "Get target m =
     (let (mt, ok) = map_lookup (metric m) target
      in if \<not> ok then (NilPtr, Some (''no such metric: '' @ target))
         else (mt, None))"

definition Put :: "string \<Rightarrow> ptr \<Rightarrow> Metrics \<Rightarrow> panic + (string option \<times> Metrics)" where
  "Put target p m =
     (let (_, exists) = map_lookup (metric m) target
      in if exists then Inr (Some (''metric '' @ target @ '' already exists''), m)
         else (case map_assign (metric m) target p of
                 Inl e \<Rightarrow> Inl e
               | Inr mp \<Rightarrow> Inr (None, m\<lparr>metric := mp\<rparr>)))"

definition Delete :: "string \<Rightarrow> Metrics \<Rightarrow> panic + (string option \<times> Metrics)" where
  "Delete target m =
     (let (_, exists) = map_lookup (metric m) target
      in if \<not> exists then
           Inr (Some (''cannot delete metric: '' @ target @ '' does not exist''), m)
         else (case map_assign (metric m) target NilPtr of
                 Inl e \<Rightarrow> Inl e
               | Inr mp \<Rightarrow> Inr (None, m\<lparr>metric := mp\<rparr>)))"

text \<open>
  \<open>Create\<close> allocates the buffer, calls \<open>Put\<close> and drops its result, and returns the new
  pointer with a nil error. \<open>maxlen\<close> is the bound of its \<open>make\<close>.
\<close>

definition Create :: "nat \<Rightarrow> string \<Rightarrow> int \<Rightarrow> Metrics \<times> store \<Rightarrow> panic + ((ptr \<times> string option) \<times> Metrics \<times> store)" where
  "Create maxlen target sz ms =
     (case new_Metric maxlen sz of
        Inl p \<Rightarrow> Inl p
      | Inr g \<Rightarrow>
          (let a = length (snd ms); st = snd ms @ [g]
           in (case Put target (Ref a) (fst ms) of
                 Inl p \<Rightarrow> Inl p
               | Inr (_, m') \<Rightarrow> Inr ((Ref a, None), m', st))))"

section \<open>Notions used to state the properties\<close>

text \<open>The range the write cursor is meant to stay in: \<open>0 \<le> head < len(list)\<close>.\<close>

definition head_in_range :: "Metric \<Rightarrow> bool" where
  "head_in_range g \<longleftrightarrow> 0 \<le> head g \<and> head g < int (length (list g))"

text \<open>
  The slots of a buffer in the order in which the loop of \<open>fetchDatapoints\<close> visits them:
  from index \<open>head\<close> to the end, then from index 0 up to \<open>head\<close>.
\<close>

definition walk :: "Metric \<Rightarrow> Count list" where
  "walk g = rotate (nat (head g)) (list g)"

text \<open>The \<open>Count{n, now}\<close> that an \<open>Add\<close> call with value \<open>n\<close> at time \<open>now\<close> stores.\<close>

definition count_of :: "real \<times> Time \<Rightarrow> Count" where
  "count_of x = \<lparr>N = fst x, T = snd x\<rparr>"

text \<open>
  The scenario of the buffer properties: the buffer that \<open>Create\<close> allocates for size
  \<open>C\<close> (with \<open>maxlen\<close> the bound of its \<open>make\<close>), then the \<open>Add\<close> calls \<open>xs\<close> in sequence,
  then \<open>fetchDatapoints\<close>.
\<close>

definition snapshot_after :: "nat \<Rightarrow> int \<Rightarrow> (real \<times> Time) list \<Rightarrow> panic + row list" where
  "snapshot_after maxlen C xs = (case new_Metric maxlen C of
       Inl p \<Rightarrow> Inl p
     | Inr g0 \<Rightarrow> (case Adds xs g0 of Inl p \<Rightarrow> Inl p | Inr g \<Rightarrow> fetchDatapoints g))"

section \<open>The ring buffer, step by step\<close>

lemma smod_nonneg: "0 \<le> a \<Longrightarrow> 0 < b \<Longrightarrow> (a::int) smod b = a mod b"
  by (simp add: signed_modulo_int_def sgn_if)

text \<open>Overwriting the slot at the cursor and advancing it drops the first visited slot
  and visits the new value last.\<close>

lemma rotate_step:
  assumes "h < length l"
  shows "rotate (Suc h mod length l) (l[h := c]) = tl (rotate h l) @ [c]"
proof -
  have upd: "l[h := c] = take h l @ c # drop (Suc h) l"
    by (rule upd_conv_take_nth_drop [OF assms])
  have rot: "rotate h l = drop h l @ take h l"
    using assms by (simp add: rotate_drop_take)
  have dh: "drop h l = l ! h # drop (Suc h) l"
    using assms by (simp add: Cons_nth_drop_Suc)
  have rhs: "tl (rotate h l) @ [c] = drop (Suc h) l @ take h l @ [c]"
    by (simp add: rot dh)
  show ?thesis
  proof (cases "Suc h < length l")
    case True
    have "rotate (Suc h mod length l) (l[h := c]) =
            drop (Suc h) (l[h := c]) @ take (Suc h) (l[h := c])"
      using True by (simp add: rotate_drop_take)
    also have "\<dots> = drop (Suc h) l @ take h l @ [c]"
      using assms by (simp add: take_Suc_conv_app_nth)
    finally show ?thesis by (simp add: rhs)
  next
    case False
    with assms have eq: "Suc h = length l" by simp
    then have "rotate (Suc h mod length l) (l[h := c]) = l[h := c]" by simp
    also have "\<dots> = take h l @ [c]" using eq by (simp add: upd)
    finally show ?thesis using eq by (simp add: rhs)
  qed
qed

lemma Add_AddCount: "Add n now g = AddCount \<lparr>N = n, T = now\<rparr> g"
  by (simp add: Add_def AddCount_def)

lemma AddCount_in_range:
  assumes "head_in_range g"
  shows "AddCount c g =
           Inr (g\<lparr>list := (list g)[nat (head g) := c],
                 head := int (Suc (nat (head g)) mod length (list g))\<rparr>)"
proof -
  from assms have h: "0 \<le> head g" "head g < int (length (list g))"
    by (simp_all add: head_in_range_def)
  then have pos: "0 < int (length (list g))" by linarith
  have "(head g + 1) smod int (length (list g)) = (head g + 1) mod int (length (list g))"
    using h pos by (intro smod_nonneg) simp_all
  also have "\<dots> = int (Suc (nat (head g)) mod length (list g))"
    using h by (simp add: zmod_int ac_simps)
  finally show ?thesis
    using h pos by (simp add: AddCount_def set_index_def go_rem_def)
qed

lemma AddCount_step:
  assumes "head_in_range g"
  shows "\<exists>g'. AddCount c g = Inr g' \<and> head_in_range g' \<and>
           length (list g') = length (list g) \<and> walk g' = tl (walk g) @ [c]"
proof -
  from assms have h: "nat (head g) < length (list g)"
    by (simp add: head_in_range_def nat_less_iff)
  let ?g' = "g\<lparr>list := (list g)[nat (head g) := c],
                head := int (Suc (nat (head g)) mod length (list g))\<rparr>"
  from h have pos: "0 < length (list g)" by (cases "list g") simp_all
  have "head_in_range ?g'" using pos by (simp add: head_in_range_def)
  moreover have "walk ?g' = tl (walk g) @ [c]"
    using rotate_step [OF h, of c] by (simp add: walk_def)
  ultimately show ?thesis
    using AddCount_in_range [OF assms, of c] by simp
qed

lemma AddCount_length:
  "AddCount c g = Inr g' \<Longrightarrow> length (list g') = length (list g)"
  by (auto simp: AddCount_def set_index_def go_rem_def split: if_splits)

lemma AddCount_empty: "list g = [] \<Longrightarrow> AddCount c g = Inl IndexOutOfRange"
  by (auto simp: AddCount_def set_index_def)

text \<open>
  After the calls \<open>xs\<close> the visiting order holds the last \<open>len(list)\<close> elements of the
  old visiting order followed by the added values.
\<close>

lemma Adds_walk:
  assumes "head_in_range g"
  shows "\<exists>g'. Adds xs g = Inr g' \<and> head_in_range g' \<and>
           length (list g') = length (list g) \<and>
           walk g' = drop (length xs) (walk g @ map count_of xs)"
  using assms
proof (induction xs arbitrary: g)
  case Nil
  then show ?case by simp
next
  case (Cons x xs)
  obtain n now where x: "x = (n, now)" by (cases x)
  from AddCount_step [OF Cons.prems, of "count_of x"]
  obtain g1 where g1: "AddCount (count_of x) g = Inr g1" "head_in_range g1"
      "length (list g1) = length (list g)" "walk g1 = tl (walk g) @ [count_of x]"
    by blast
  from Cons.IH [OF g1(2)]
  obtain g' where g': "Adds xs g1 = Inr g'" "head_in_range g'"
      "length (list g') = length (list g1)"
      "walk g' = drop (length xs) (walk g1 @ map count_of xs)"
    by blast
  have ne: "walk g \<noteq> []"
    using Cons.prems by (auto simp: walk_def head_in_range_def)
  have "walk g1 @ map count_of xs = tl (walk g @ map count_of (x # xs))"
    using ne by (simp add: g1(4))
  then have "walk g' = drop (length xs) (tl (walk g @ map count_of (x # xs)))"
    by (simp only: g'(4))
  then have "walk g' = drop (length (x # xs)) (walk g @ map count_of (x # xs))"
    by (simp only: drop_Suc length_Cons)
  moreover have "Adds (x # xs) g = Inr g'"
    using g1(1) g'(1) by (simp add: x Add_AddCount count_of_def)
  ultimately show ?case
    using g'(2,3) g1(3) by simp
qed

text \<open>The loop appends one row for each slot it still has to visit.\<close>

lemma fetch_loop_walk:
  assumes "head_in_range g" "i \<le> length (list g)"
  shows "fetch_loop g (int (length (list g))) (head g) (int i) rows =
           Inr (rows @ map mk_row (drop i (walk g)))"
  using assms(2)
proof (induction "length (list g) - i" arbitrary: i rows)
  case 0
  then have "i = length (list g)" by simp
  then show ?case by (simp add: walk_def)
next
  case (Suc k)
  then have lt: "i < length (list g)" by simp
  from assms(1) have h: "0 \<le> head g" "head g < int (length (list g))"
    by (simp_all add: head_in_range_def)
  have "(int i + head g) smod int (length (list g)) = (int i + head g) mod int (length (list g))"
    using h lt by (intro smod_nonneg) auto
  also have "\<dots> = int ((nat (head g) + i) mod length (list g))"
    using h by (simp add: zmod_int add.commute)
  finally have rem: "go_rem (int i + head g) (int (length (list g))) =
      Inr (int ((nat (head g) + i) mod length (list g)))"
    using lt by (auto simp: go_rem_def)
  from lt have pos: "0 < length (list g)" by (cases "list g") simp_all
  have idx: "index (list g) (int ((nat (head g) + i) mod length (list g))) = Inr (walk g ! i)"
    using lt pos by (simp add: index_def walk_def nth_rotate)
  have IH: "fetch_loop g (int (length (list g))) (head g) (int (Suc i)) (rows @ [mk_row (walk g ! i)]) =
      Inr ((rows @ [mk_row (walk g ! i)]) @ map mk_row (drop (Suc i) (walk g)))"
    using Suc.hyps(2) lt by (intro Suc.hyps(1)) simp_all
  have "drop i (walk g) = walk g ! i # drop (Suc i) (walk g)"
    using lt by (simp add: Cons_nth_drop_Suc walk_def)
  then show ?case
    using lt rem idx IH
    by (subst fetch_loop.simps) (simp add: add.commute)
qed

lemma fetchDatapoints_walk:
  assumes "head_in_range g"
  shows "fetchDatapoints g =
           Inr (replicate (length (list g)) zero_row @ map mk_row (walk g))"
  using fetch_loop_walk [OF assms, of 0] by (simp add: fetchDatapoints_def)

lemma new_Metric_ok:
  assumes "0 \<le> C" "C \<le> int maxlen"
  shows "new_Metric maxlen C = Inr \<lparr>list = replicate (nat C) zero_Count, head = 0\<rparr>"
  using assms by (simp add: new_Metric_def make_Counts_def)

text \<open>
  What \<open>fetchDatapoints\<close> returns after any sequence of \<open>Add\<close> calls on a new buffer: the
  \<open>C\<close> zero rows that \<open>make([]row, length)\<close> put there, and after them the rows of the
  last \<open>C\<close> elements of the sequence made of \<open>C\<close> zero Counts and the added values.
\<close>

lemma snapshot_after_eq:
  assumes "1 \<le> C" "C \<le> int maxlen"
  shows "snapshot_after maxlen C xs =
           Inr (replicate (nat C) zero_row @
                map mk_row (drop (length xs) (replicate (nat C) zero_Count @ map count_of xs)))"
proof -
  let ?g0 = "\<lparr>list = replicate (nat C) zero_Count, head = 0\<rparr>"
  have g0: "new_Metric maxlen C = Inr ?g0" using assms by (simp add: new_Metric_ok)
  have inr: "head_in_range ?g0" using assms by (simp add: head_in_range_def)
  from Adds_walk [OF inr, of xs]
  obtain g where g: "Adds xs ?g0 = Inr g" "head_in_range g" "length (list g) = length (list ?g0)"
      "walk g = drop (length xs) (walk ?g0 @ map count_of xs)"
    by blast
  have "walk ?g0 = replicate (nat C) zero_Count" by (simp add: walk_def)
  then show ?thesis
    using g by (simp add: snapshot_after_def g0 fetchDatapoints_walk)
qed

text \<open>
  Once the buffer has been written \<open>C\<close> times or more, the rows after the \<open>C\<close> zero rows
  are those of the last \<open>C\<close> added values, oldest first.
\<close>

lemma snapshot_after_full:
  assumes "1 \<le> C" "C \<le> int maxlen" "nat C \<le> length xs"
  shows "snapshot_after maxlen C xs =
           Inr (replicate (nat C) zero_row @
                map (\<lambda>x. mk_row (count_of x)) (drop (length xs - nat C) xs))"
proof -
  have "drop (length xs) (replicate (nat C) zero_Count @ map count_of xs) =
          map count_of (drop (length xs - nat C) xs)"
    using assms(3) by (simp add: drop_map)
  then show ?thesis
    using snapshot_after_eq [OF assms(1,2), of xs] by (simp add: comp_def)
qed

section \<open>The registry, step by step\<close>

lemma Put_fresh:
  "metric m = Some f \<Longrightarrow> f target = None \<Longrightarrow>
     Put target p m = Inr (None, m\<lparr>metric := Some (f(target \<mapsto> p))\<rparr>)"
  by (simp add: Put_def map_lookup_def map_assign_def)

lemma Put_existing:
  "metric m = Some f \<Longrightarrow> f target = Some q \<Longrightarrow>
     Put target p m = Inr (Some (''metric '' @ target @ '' already exists''), m)"
  by (simp add: Put_def map_lookup_def)

lemma Get_unregistered:
  "metric m = Some f \<Longrightarrow> f target = None \<Longrightarrow>
     Get target m = (NilPtr, Some (''no such metric: '' @ target))"
  by (simp add: Get_def map_lookup_def)

lemma Create_negative: "sz < 0 \<Longrightarrow> Create maxlen target sz ms = Inl MakesliceLenOutOfRange"
  by (simp add: Create_def new_Metric_def make_Counts_def)

lemma Create_too_large: "int maxlen < sz \<Longrightarrow> Create maxlen target sz ms = Inl AllocationFailure"
  by (simp add: Create_def new_Metric_def make_Counts_def)

lemma Create_ok:
  assumes "0 \<le> sz" "sz \<le> int maxlen" "metric m = Some f"
  shows "Create maxlen target sz (m, st) =
           Inr ((Ref (length st), None),
                (if f target = None then m\<lparr>metric := Some (f(target \<mapsto> Ref (length st)))\<rparr> else m),
                st @ [\<lparr>list = replicate (nat sz) zero_Count, head = 0\<rparr>])"
proof (cases "f target")
  case None
  then show ?thesis
    using assms by (simp add: Create_def new_Metric_ok Put_fresh Let_def)
next
  case (Some q)
  then show ?thesis
    using assms by (simp add: Create_def new_Metric_ok Put_existing Let_def)
qed

section \<open>Snapshots\<close>

text \<open>
  The scenarios evaluated below run with a \<open>make\<close> that serves up to 1024 slots.
\<close>

text \<open>
  Claim C1, as amended: for every capacity \<open>C \<ge> 1\<close> and every sequence of \<open>N \<ge> 0\<close>
  \<open>Add\<close> calls on a freshly created buffer of capacity \<open>C\<close> (a length that \<open>make\<close> can
  allocate, or there is no buffer), \<open>fetchDatapoints\<close> returns a
  sequence that ends with one row for each of the \<open>C\<close> slots of the buffer, written or
  not: the rows of the last \<open>C\<close> elements of the \<open>C\<close> zero Counts followed by the added
  values. The buffer keeps no count of the writes, so the number of these rows is \<open>C\<close>
  whatever \<open>N\<close> is.
\<close>

theorem fetchDatapoints_length:
  assumes "1 \<le> C" "C \<le> int maxlen"
  shows "\<exists>pre rs. snapshot_after maxlen C xs = Inr (pre @ rs) \<and> int (length rs) = C \<and>
           rs = map mk_row (drop (length xs) (replicate (nat C) zero_Count @ map count_of xs))"
proof -
  let ?rs = "map mk_row (drop (length xs) (replicate (nat C) zero_Count @ map count_of xs))"
  have "int (length ?rs) = C" using assms(1) by simp
  then show ?thesis
    using snapshot_after_eq [OF assms, of xs] by blast
qed

text \<open>The amended C1 at capacity 3 after one \<open>Add(1)\<close> at the instant 5 ms.\<close>

theorem fetchDatapoints_length_witness:
  "1 \<le> (3::int) \<and> (3::int) \<le> int 1024 \<and>
   (\<exists>pre rs. snapshot_after 1024 3 [(1, 5000000)] = Inr (pre @ rs) \<and> int (length rs) = 3 \<and>
      rs = [[Float64 0, Int64 (- 6795364578871)], [Float64 0, Int64 (- 6795364578871)],
            [Float64 1, Int64 5]])"
proof -
  have h: "1 \<le> (3::int)" by simp
  have l: "(3::int) \<le> int 1024" by simp
  have e: "map mk_row (drop (length [(1::real, 5000000::int)])
             (replicate (nat 3) zero_Count @ map count_of [(1, 5000000)])) =
           [[Float64 0, Int64 (- 6795364578871)], [Float64 0, Int64 (- 6795364578871)],
            [Float64 1, Int64 5]]"
    by code_simp
  show ?thesis
    using fetchDatapoints_length [OF h l, of "[(1, 5000000)]"] h l by (simp only: e)
qed

text \<open>
  C1 as stated fails: with capacity 3 and a single \<open>Add\<close> the sequence returned has 6
  elements, not \<open>min(1, 3) = 1\<close>; two of them are the rows of slots never written to.
\<close>

theorem fetchDatapoints_length_counterexample:
  "snapshot_after 1024 3 [(1, 5000000)] =
     Inr [[], [], [], [Float64 0, Int64 (- 6795364578871)],
          [Float64 0, Int64 (- 6795364578871)], [Float64 1, Int64 5]]
   \<and> length [[], [], [], [Float64 0, Int64 (- 6795364578871)],
          [Float64 0, Int64 (- 6795364578871)], [Float64 1, Int64 5]]
       \<noteq> min (length [(1::real, 5000000::int)]) 3"
  by code_simp

text \<open>
  Claim C2: after C + k inserts into a buffer of capacity C the snapshot equals inserts k
  to C + k - 1, oldest first; with capacity 3 and \<open>Add(1)\<close>, \<open>Add(2)\<close>, \<open>Add(3)\<close>, \<open>Add(4)\<close>
  it is \<open>[2, 3, 4]\<close>. Evaluated on that scenario (the four calls at the instants 1 ms to
  4 ms), \<open>fetchDatapoints\<close> returns six rows: three zero rows come before the rows of 2, 3
  and 4.
\<close>

theorem fetchDatapoints_after_wrap:
  "snapshot_after 1024 3 [(1, 1000000), (2, 2000000), (3, 3000000), (4, 4000000)] =
     Inr [[], [], [], [Float64 2, Int64 2], [Float64 3, Int64 3], [Float64 4, Int64 4]]"
  by code_simp

text \<open>
  Claim C3, as amended: for every capacity \<open>C \<ge> 1\<close> (a length that \<open>make\<close> can allocate)
  and every \<open>N < C\<close>, after \<open>N\<close> inserts into a freshly created buffer the sequence
  returned by \<open>fetchDatapoints\<close> ends with the \<open>N\<close> inserted samples in write order,
  and directly before them it exposes the \<open>C - N\<close> slots never written to, as rows of
  the zero Count.
\<close>

theorem fetchDatapoints_partial:
  assumes "1 \<le> C" "C \<le> int maxlen" "int (length xs) < C"
  shows "\<exists>pre. snapshot_after maxlen C xs =
           Inr (pre @ replicate (nat C - length xs) (mk_row zero_Count) @
                map (\<lambda>x. mk_row (count_of x)) xs)"
proof -
  from assms(3) have le: "length xs \<le> nat C" by simp
  have "drop (length xs) (replicate (nat C) zero_Count @ map count_of xs) =
          replicate (nat C - length xs) zero_Count @ map count_of xs"
    using le by simp
  then have "snapshot_after maxlen C xs =
      Inr (replicate (nat C) zero_row @ replicate (nat C - length xs) (mk_row zero_Count) @
           map (\<lambda>x. mk_row (count_of x)) xs)"
    using snapshot_after_eq [OF assms(1,2), of xs] by (simp add: comp_def)
  then show ?thesis by blast
qed

text \<open>The amended C3 at capacity 5 after \<open>Add(10)\<close> at 1 ms and \<open>Add(20)\<close> at 2 ms.\<close>

theorem fetchDatapoints_partial_witness:
  "1 \<le> (5::int) \<and> (5::int) \<le> int 1024 \<and> int (length [(10::real, 1000000::int), (20, 2000000)]) < 5 \<and>
   (\<exists>pre. snapshot_after 1024 5 [(10, 1000000), (20, 2000000)] =
      Inr (pre @ [[Float64 0, Int64 (- 6795364578871)], [Float64 0, Int64 (- 6795364578871)],
                  [Float64 0, Int64 (- 6795364578871)], [Float64 10, Int64 1],
                  [Float64 20, Int64 2]]))"
proof -
  have h1: "1 \<le> (5::int)" by simp
  have l: "(5::int) \<le> int 1024" by simp
  have h2: "int (length [(10::real, 1000000::int), (20, 2000000)]) < 5" by simp
  have e: "replicate (nat 5 - length [(10::real, 1000000::int), (20, 2000000)]) (mk_row zero_Count) @
             map (\<lambda>x. mk_row (count_of x)) [(10, 1000000), (20, 2000000)] =
           [[Float64 0, Int64 (- 6795364578871)], [Float64 0, Int64 (- 6795364578871)],
            [Float64 0, Int64 (- 6795364578871)], [Float64 10, Int64 1], [Float64 20, Int64 2]]"
    by code_simp
  show ?thesis
    using fetchDatapoints_partial [OF h1 l h2] h1 l h2 by (simp only: e)
qed

text \<open>
  C3 as stated fails: with capacity 5 and \<open>Add(10)\<close>, \<open>Add(20)\<close> the sequence returned is
  not \<open>[10, 20]\<close>; it has 10 elements, among them the rows of the three slots never
  written to.
\<close>

theorem fetchDatapoints_partial_counterexample:
  "snapshot_after 1024 5 [(10, 1000000), (20, 2000000)] =
     Inr [[], [], [], [], [],
          [Float64 0, Int64 (- 6795364578871)], [Float64 0, Int64 (- 6795364578871)],
          [Float64 0, Int64 (- 6795364578871)], [Float64 10, Int64 1], [Float64 20, Int64 2]]
   \<and> snapshot_after 1024 5 [(10, 1000000), (20, 2000000)] \<noteq>
       Inr [[Float64 10, Int64 1], [Float64 20, Int64 2]]"
  by code_simp

section \<open>Registry lifecycle\<close>

text \<open>
  Claim C4: a successful \<open>Delete\<close> removes the key from the registry, so that the name
  can be registered again by \<open>Create\<close> or \<open>Put\<close>. Evaluated on a registry where \<open>Create\<close>
  has registered \<open>x\<close>: \<open>Delete\<close> succeeds and leaves the key \<open>x\<close> in the map, bound to
  nil; the \<open>Put\<close> that follows fails, the name already exists.
\<close>

theorem Delete_then_Put:
  "Create 1024 ''x'' 3 (\<lparr>metric = Some Map.empty\<rparr>, []) =
     Inr ((Ref 0, None), \<lparr>metric = Some [''x'' \<mapsto> Ref 0]\<rparr>,
          [\<lparr>list = [zero_Count, zero_Count, zero_Count], head = 0\<rparr>])
   \<and> Delete ''x'' \<lparr>metric = Some [''x'' \<mapsto> Ref 0]\<rparr> =
       Inr (None, \<lparr>metric = Some [''x'' \<mapsto> NilPtr]\<rparr>)
   \<and> Put ''x'' (Ref 1) \<lparr>metric = Some [''x'' \<mapsto> NilPtr]\<rparr> =
       Inr (Some ''metric x already exists'', \<lparr>metric = Some [''x'' \<mapsto> NilPtr]\<rparr>)"
  by (simp add: Create_def new_Metric_def make_Counts_def Put_def Delete_def map_lookup_def
      map_assign_def numeral_3_eq_3)

text \<open>
  Claim C5: \<open>Get\<close> returns a not-found error and no buffer for every name without a live
  buffer, a name removed by \<open>Delete\<close> included. Evaluated after \<open>Delete\<close> of the registered
  name \<open>x\<close>: \<open>Get\<close> finds the key, and returns the nil pointer with a nil error.
\<close>

theorem Delete_then_Get:
  "Delete ''x'' \<lparr>metric = Some [''x'' \<mapsto> Ref 0]\<rparr> =
     Inr (None, \<lparr>metric = Some [''x'' \<mapsto> NilPtr]\<rparr>)
   \<and> Get ''x'' \<lparr>metric = Some [''x'' \<mapsto> NilPtr]\<rparr> = (NilPtr, None)"
  by (simp add: Delete_def Get_def map_lookup_def map_assign_def)

text \<open>
  Claim C6: for a name that maps to a live buffer, \<open>Create\<close> and \<open>Put\<close> both fail with an
  already-exists error and leave the mapping unchanged. Evaluated on a registry where \<open>x\<close>
  is registered: \<open>Create\<close> leaves the mapping unchanged, but it returns a nil error and a
  pointer to a new buffer that the registry does not hold.
\<close>

theorem Create_existing_name:
  "Create 1024 ''x'' 3 (\<lparr>metric = Some [''x'' \<mapsto> Ref 0]\<rparr>,
                   [\<lparr>list = [zero_Count, zero_Count, zero_Count], head = 0\<rparr>]) =
     Inr ((Ref 1, None), \<lparr>metric = Some [''x'' \<mapsto> Ref 0]\<rparr>,
          [\<lparr>list = [zero_Count, zero_Count, zero_Count], head = 0\<rparr>,
           \<lparr>list = [zero_Count, zero_Count, zero_Count], head = 0\<rparr>])"
  by (simp add: Create_def new_Metric_def make_Counts_def Put_def map_lookup_def numeral_3_eq_3)

section \<open>Capacity and the write cursor\<close>

text \<open>
  Claim C7, as amended: \<open>Create\<close> does not validate the size and has no invalid-capacity
  error. For a size below 0 it panics in \<open>make\<close>, and for a size above what \<open>make\<close> can
  allocate it fails in \<open>make\<close> as well; in both cases it returns no error value and
  registers nothing. For every size from 0 up to what \<open>make\<close> can allocate, on a registry
  whose map is allocated, it returns a nil error and a pointer to a new buffer with that
  many slots, and registers the buffer when the name is free. The capacity is immutable
  thereafter: \<open>Add\<close>, \<open>AddWithTime\<close> and \<open>AddCount\<close> return a buffer with as many slots
  as before.
\<close>

theorem Create_capacity:
  assumes "metric m = Some f"
  shows "(sz < 0 \<longrightarrow> Create maxlen target sz (m, st) = Inl MakesliceLenOutOfRange)
       \<and> (int maxlen < sz \<longrightarrow> Create maxlen target sz (m, st) = Inl AllocationFailure)
       \<and> (0 \<le> sz \<and> sz \<le> int maxlen \<longrightarrow>
            (\<exists>m'. Create maxlen target sz (m, st) =
                     Inr ((Ref (length st), None), m',
                          st @ [\<lparr>list = replicate (nat sz) zero_Count, head = 0\<rparr>])
                 \<and> (f target = None \<longrightarrow> metric m' = Some (f(target \<mapsto> Ref (length st))))))
       \<and> (\<forall>g'. Add n now g = Inr g' \<longrightarrow> length (list g') = length (list g))
       \<and> (\<forall>g'. AddWithTime n t g = Inr g' \<longrightarrow> length (list g') = length (list g))
       \<and> (\<forall>g'. AddCount c g = Inr g' \<longrightarrow> length (list g') = length (list g))"
proof -
  have neg: "sz < 0 \<longrightarrow> Create maxlen target sz (m, st) = Inl MakesliceLenOutOfRange"
    by (simp add: Create_negative)
  have big: "int maxlen < sz \<longrightarrow> Create maxlen target sz (m, st) = Inl AllocationFailure"
    by (simp add: Create_too_large)
  have ok: "0 \<le> sz \<and> sz \<le> int maxlen \<longrightarrow>
            (\<exists>m'. Create maxlen target sz (m, st) =
                     Inr ((Ref (length st), None), m',
                          st @ [\<lparr>list = replicate (nat sz) zero_Count, head = 0\<rparr>])
                 \<and> (f target = None \<longrightarrow> metric m' = Some (f(target \<mapsto> Ref (length st)))))"
    using Create_ok [OF _ _ assms, of sz maxlen target st] by simp
  have keep: "\<forall>g'. AddCount c g = Inr g' \<longrightarrow> length (list g') = length (list g)" for c
    by (simp add: AddCount_length)
  show ?thesis
    using neg big ok keep by (simp add: Add_AddCount AddWithTime_def)
qed

text \<open>
  The amended C7 on the empty registry with a \<open>make\<close> that serves up to 1024 slots: size
  -1, size 2000, size 2 under the free name \<open>x\<close>, and the three add operations on a buffer
  of two slots.
\<close>

theorem Create_capacity_witness:
  "metric \<lparr>metric = Some Map.empty\<rparr> = Some Map.empty
   \<and> (- 1 < (0::int) \<and>
        Create 1024 ''x'' (- 1) (\<lparr>metric = Some Map.empty\<rparr>, []) = Inl MakesliceLenOutOfRange)
   \<and> (int 1024 < (2000::int) \<and>
        Create 1024 ''x'' 2000 (\<lparr>metric = Some Map.empty\<rparr>, []) = Inl AllocationFailure)
   \<and> (0 \<le> (2::int) \<and> (2::int) \<le> int 1024 \<and> (Map.empty :: string \<rightharpoonup> ptr) ''x'' = None \<and>
        (\<exists>m'. Create 1024 ''x'' 2 (\<lparr>metric = Some Map.empty\<rparr>, []) =
              Inr ((Ref 0, None), m', [\<lparr>list = [zero_Count, zero_Count], head = 0\<rparr>])
          \<and> metric m' = Some [''x'' \<mapsto> Ref 0]))
   \<and> (Add 7 9 \<lparr>list = [zero_Count, zero_Count], head = 1\<rparr> =
          Inr \<lparr>list = [zero_Count, \<lparr>N = 7, T = 9\<rparr>], head = 0\<rparr>
        \<and> length (list \<lparr>list = [zero_Count, \<lparr>N = 7, T = 9\<rparr>], head = 0\<rparr>) =
          length (list \<lparr>list = [zero_Count, zero_Count], head = 1\<rparr>))
   \<and> (AddWithTime 7 9 \<lparr>list = [zero_Count, zero_Count], head = 1\<rparr> =
          Inr \<lparr>list = [zero_Count, \<lparr>N = 7, T = 9\<rparr>], head = 0\<rparr>)
   \<and> (AddCount \<lparr>N = 7, T = 9\<rparr> \<lparr>list = [zero_Count, zero_Count], head = 1\<rparr> =
          Inr \<lparr>list = [zero_Count, \<lparr>N = 7, T = 9\<rparr>], head = 0\<rparr>)"
proof -
  have h: "metric \<lparr>metric = Some Map.empty\<rparr> = Some Map.empty" by simp
  have neg: "Create 1024 ''x'' (- 1) (\<lparr>metric = Some Map.empty\<rparr>, []) = Inl MakesliceLenOutOfRange"
    using Create_capacity [OF h, where sz = "- 1" and target = "''x''" and st = "[]"] by simp
  have big: "Create 1024 ''x'' 2000 (\<lparr>metric = Some Map.empty\<rparr>, []) = Inl AllocationFailure"
    using Create_capacity [OF h, where sz = 2000 and maxlen = 1024 and target = "''x''" and st = "[]"]
    by simp
  have ok: "\<exists>m'. Create 1024 ''x'' 2 (\<lparr>metric = Some Map.empty\<rparr>, []) =
              Inr ((Ref 0, None), m', [\<lparr>list = [zero_Count, zero_Count], head = 0\<rparr>])
          \<and> metric m' = Some [''x'' \<mapsto> Ref 0]"
    using Create_capacity [OF h, where sz = 2 and maxlen = 1024 and target = "''x''" and st = "[]"]
    by (simp add: numeral_2_eq_2)
  have add: "AddCount \<lparr>N = 7, T = 9\<rparr> \<lparr>list = [zero_Count, zero_Count], head = 1\<rparr> =
          Inr \<lparr>list = [zero_Count, \<lparr>N = 7, T = 9\<rparr>], head = 0\<rparr>"
    by (simp add: AddCount_def set_index_def go_rem_def signed_modulo_int_def)
  have keep: "length (list \<lparr>list = [zero_Count, \<lparr>N = 7, T = 9\<rparr>], head = 0\<rparr>) =
          length (list \<lparr>list = [zero_Count, zero_Count], head = 1\<rparr>)"
    using Create_capacity [OF h, where n = 7 and now = 9
        and g = "\<lparr>list = [zero_Count, zero_Count], head = 1\<rparr>"] add
    by (simp add: Add_AddCount)
  show ?thesis
    using h neg big ok add keep by (simp add: Add_AddCount AddWithTime_def)
qed

text \<open>
  C7 as stated fails at size 0: \<open>Create\<close> on the empty registry returns a nil error and
  registers a buffer with no slots under the name.
\<close>

theorem Create_size_zero_counterexample:
  "Create 1024 ''x'' 0 (\<lparr>metric = Some Map.empty\<rparr>, []) =
     Inr ((Ref 0, None), \<lparr>metric = Some [''x'' \<mapsto> Ref 0]\<rparr>, [\<lparr>list = [], head = 0\<rparr>])"
  by (simp add: Create_def new_Metric_def make_Counts_def Put_def map_lookup_def map_assign_def)

text \<open>
  Claim C8: for every buffer of capacity at least 1, \<open>0 \<le> head < capacity\<close> holds after
  construction by \<open>Create\<close> (where \<open>Create\<close> constructs one: the size is a length that
  \<open>make\<close> can allocate and the map of the registry is allocated) and is preserved by
  every \<open>Add\<close>, \<open>AddWithTime\<close> and \<open>AddCount\<close>, none of which panics on such a buffer.
\<close>

theorem head_in_range_invariant:
  "(1 \<le> C \<and> C \<le> int maxlen \<and> metric m \<noteq> None \<longrightarrow>
      (\<exists>a e m' st'. Create maxlen target C (m, st) = Inr ((Ref a, e), m', st') \<and> a < length st' \<and>
          head_in_range (st' ! a) \<and> int (length (list (st' ! a))) = C))
   \<and> (head_in_range g \<longrightarrow>
        (\<exists>g'. Add n now g = Inr g' \<and> head_in_range g' \<and> length (list g') = length (list g))
      \<and> (\<exists>g'. AddWithTime n t g = Inr g' \<and> head_in_range g' \<and> length (list g') = length (list g))
      \<and> (\<exists>g'. AddCount c g = Inr g' \<and> head_in_range g' \<and> length (list g') = length (list g)))"
proof -
  have create: "\<exists>a e m' st'. Create maxlen target C (m, st) = Inr ((Ref a, e), m', st') \<and>
          a < length st' \<and> head_in_range (st' ! a) \<and> int (length (list (st' ! a))) = C"
    if "1 \<le> C" "C \<le> int maxlen" "metric m \<noteq> None"
  proof -
    from that(3) obtain f where f: "metric m = Some f" by blast
    let ?g0 = "\<lparr>list = replicate (nat C) zero_Count, head = 0\<rparr>"
    have "head_in_range ?g0 \<and> int (length (list ?g0)) = C"
      using that(1) by (simp add: head_in_range_def)
    then show ?thesis
      using Create_ok [OF _ that(2) f, of target st] that(1) by (simp add: nth_append)
  qed
  have step: "\<exists>g'. AddCount c g = Inr g' \<and> head_in_range g' \<and>
      length (list g') = length (list g)" if "head_in_range g" for c
    using AddCount_step [OF that, of c] by blast
  show ?thesis
    using create step by (simp add: Add_AddCount AddWithTime_def)
qed

text \<open>
  C8 for \<open>Create\<close> with size 3 on the empty registry, and for the add operations on a
  buffer of three slots whose cursor is at the last one.
\<close>

theorem head_in_range_invariant_witness:
  "(1 \<le> (3::int) \<and> (3::int) \<le> int 1024 \<and> metric \<lparr>metric = Some Map.empty\<rparr> \<noteq> None)
   \<and> (\<exists>a e m' st'. Create 1024 ''x'' 3 (\<lparr>metric = Some Map.empty\<rparr>, []) = Inr ((Ref a, e), m', st') \<and>
          a < length st' \<and> head_in_range (st' ! a) \<and> int (length (list (st' ! a))) = 3)
   \<and> head_in_range \<lparr>list = [zero_Count, zero_Count, zero_Count], head = 2\<rparr>
   \<and> (\<exists>g'. Add 7 9 \<lparr>list = [zero_Count, zero_Count, zero_Count], head = 2\<rparr> = Inr g' \<and>
          head_in_range g' \<and> length (list g') = 3)
   \<and> (\<exists>g'. AddWithTime 7 9 \<lparr>list = [zero_Count, zero_Count, zero_Count], head = 2\<rparr> = Inr g' \<and>
          head_in_range g' \<and> length (list g') = 3)
   \<and> (\<exists>g'. AddCount \<lparr>N = 7, T = 9\<rparr> \<lparr>list = [zero_Count, zero_Count, zero_Count], head = 2\<rparr> = Inr g' \<and>
          head_in_range g' \<and> length (list g') = 3)"
proof -
  have h1: "1 \<le> (3::int) \<and> (3::int) \<le> int 1024 \<and> metric \<lparr>metric = Some Map.empty\<rparr> \<noteq> None"
    by simp
  have h2: "head_in_range \<lparr>list = [zero_Count, zero_Count, zero_Count], head = 2\<rparr>"
    by (simp add: head_in_range_def)
  show ?thesis
    using h1 h2
      head_in_range_invariant [where C = 3 and maxlen = 1024 and m = "\<lparr>metric = Some Map.empty\<rparr>"
        and target = "''x''" and st = "[]"
        and g = "\<lparr>list = [zero_Count, zero_Count, zero_Count], head = 2\<rparr>"
        and n = 7 and now = 9 and t = 9 and c = "\<lparr>N = 7, T = 9\<rparr>"]
    by (simp add: numeral_3_eq_3)
qed

text \<open>
  Claim C10, as amended: \<open>Create\<close> accepts size 0 without error (on a registry whose map
  is allocated) and returns a buffer whose list has length 0; on that buffer every
  \<open>Add\<close>, \<open>AddWithTime\<close> and \<open>AddCount\<close> call panics rather than returning an error value.
  The panic is the index out of range of the slot write \<open>g.list[g.head]\<close>, which comes
  before the head update; the modulo by zero is never reached.
\<close>

theorem Create_zero_then_Add:
  assumes "metric m = Some f"
  shows "\<exists>m'. Create maxlen target 0 (m, st) =
                 Inr ((Ref (length st), None), m', st @ [\<lparr>list = [], head = 0\<rparr>])
       \<and> length (list \<lparr>list = [], head = 0\<rparr>) = 0
       \<and> Add n now \<lparr>list = [], head = 0\<rparr> = Inl IndexOutOfRange
       \<and> AddWithTime n t \<lparr>list = [], head = 0\<rparr> = Inl IndexOutOfRange
       \<and> AddCount c \<lparr>list = [], head = 0\<rparr> = Inl IndexOutOfRange"
  using Create_ok [OF _ _ assms, of 0 maxlen target st]
  by (simp add: Add_AddCount AddWithTime_def AddCount_empty)

text \<open>The amended C10 on the empty registry.\<close>

theorem Create_zero_then_Add_witness:
  "metric \<lparr>metric = Some Map.empty\<rparr> = Some Map.empty
   \<and> (\<exists>m'. Create 1024 ''x'' 0 (\<lparr>metric = Some Map.empty\<rparr>, []) =
                 Inr ((Ref 0, None), m', [\<lparr>list = [], head = 0\<rparr>])
       \<and> length (list \<lparr>list = [], head = 0\<rparr>) = 0
       \<and> Add 7 9 \<lparr>list = [], head = 0\<rparr> = Inl IndexOutOfRange
       \<and> AddWithTime 7 9 \<lparr>list = [], head = 0\<rparr> = Inl IndexOutOfRange
       \<and> AddCount \<lparr>N = 7, T = 9\<rparr> \<lparr>list = [], head = 0\<rparr> = Inl IndexOutOfRange)"
proof -
  have h: "metric \<lparr>metric = Some Map.empty\<rparr> = Some Map.empty" by simp
  show ?thesis
    using h Create_zero_then_Add [OF h, where maxlen = 1024 and target = "''x''" and st = "[]" and n = 7
        and now = 9 and t = 9 and c = "\<lparr>N = 7, T = 9\<rparr>"]
    by simp
qed

text \<open>
  C10 as stated fails in the kind of panic: on the buffer that \<open>Create\<close> returns for size
  0, \<open>AddCount\<close> panics with an index out of range, not with a division by zero.
\<close>

theorem Add_on_empty_counterexample:
  "Create 1024 ''x'' 0 (\<lparr>metric = Some Map.empty\<rparr>, []) =
     Inr ((Ref 0, None), \<lparr>metric = Some [''x'' \<mapsto> Ref 0]\<rparr>, [\<lparr>list = [], head = 0\<rparr>])
   \<and> AddCount \<lparr>N = 1, T = 0\<rparr> \<lparr>list = [], head = 0\<rparr> = Inl IndexOutOfRange
   \<and> AddCount \<lparr>N = 1, T = 0\<rparr> \<lparr>list = [], head = 0\<rparr> \<noteq> Inl DivideByZero"
  by (simp add: Create_def new_Metric_def make_Counts_def Put_def map_lookup_def map_assign_def
      AddCount_def set_index_def)

end
